theory Spec2Isabelle
  imports Complex_Main
begin

section \<open>The random iterated function system of rand-ifs.ts\<close>

text \<open>
  The class \<^verbatim>\<open>RandomIFS\<close> of \<^verbatim>\<open>src/ts/fractals/rand-ifs.ts\<close> is embedded
  function by function. A JavaScript \<^verbatim>\<open>number\<close> is modelled as an exact, finite
  \<^typ>\<open>real\<close>: the rounding of IEEE doubles, NaN and the infinities are not part of the
  model. The only divisions of the source divide by \<^verbatim>\<open>b1-a1\<close> and \<^verbatim>\<open>b2-a2\<close>, so the
  coordinates computed by the model are those of the code for non-degenerate windows only
  (HOL's \<open>x / 0\<close> is \<open>0\<close>, JavaScript's is NaN or an infinity).

  \<^verbatim>\<open>Math.random()\<close> is a global source of numbers in \<open>[0,1)\<close>: it is the sequence
  \<open>rs :: nat \<Rightarrow> real\<close> of its successive results, with a cursor \<open>k\<close> (the number of
  draws made so far) that every drawing function returns advanced.
\<close>

subsection \<open>Data\<close>

text \<open>\<^verbatim>\<open>Coordinate\<close> (types.ts): the code reads and writes the fields \<^verbatim>\<open>x\<close> and \<^verbatim>\<open>y\<close>.\<close>

record Coordinate =
  x :: real
  y :: real

text \<open>\<^verbatim>\<open>WindowCoordinates\<close> (window-table.ts).\<close>

record WindowCoordinates =
  a1 :: real
  b1 :: real
  a2 :: real
  b2 :: real

text \<open>
  Modelled from the spec: the fields of the class \<^verbatim>\<open>AffineTransform\<close> (affine-transform.ts
  is not among the sources): six real coefficients \<open>(a,b,c,d,e,f)\<close> defining
  \<open>x' = a x + b y + e\<close>, \<open>y' = c x + d y + f\<close>.
\<close>

record AffineTransform =
  a :: real
  b :: real
  c :: real
  d :: real
  e :: real
  f :: real

text \<open>
  Modelled from the spec: \<^verbatim>\<open>AffineTransform.createMatrix\<close> (not among the sources), the
  matrix form of the six coefficients: \<^verbatim>\<open>applyMatrix\<close> reads the indices 0, 1, 4 for \<open>x'\<close>
  and 2, 3, 5 for \<open>y'\<close>, so the matrix is \<open>[a, b, c, d, e, f]\<close>.
\<close>

definition createMatrix :: "AffineTransform \<Rightarrow> real list" where
  "createMatrix t = [a t, b t, c t, d t, e t, f t]"

text \<open>
  \<^verbatim>\<open>ProbabilityAffineTable\<close> (affine-table.ts is not among the sources): the constructor
  only calls \<^verbatim>\<open>collectTransforms()\<close> and \<^verbatim>\<open>collectProbabilities()\<close>, whose results are
  the two fields.
\<close>

record ProbabilityAffineTable =
  collectTransforms :: "AffineTransform list"
  collectProbabilities :: "real list"

text \<open>
  The rendering context: the current \<^verbatim>\<open>fillStyle\<close> and the rectangles filled so far, in
  the order of the \<^verbatim>\<open>fillRect\<close> calls, each with the style it was filled with.
\<close>

record Rect =
  style :: string
  rx :: real
  ry :: real
  rw :: real
  rh :: real

record CanvasRenderingContext2D =
  fillStyle :: string
  filled :: "Rect list"

record HTMLCanvasElement =
  width :: nat
  height :: nat
  getContext :: CanvasRenderingContext2D

datatype error = TypeError | ConfigurationError

text \<open>
  The fields of the class. \<^verbatim>\<open>currentPoint\<close> is assigned last by the constructor, after
  the fixed-point search has run on the other fields: the search and the functions it
  calls work on \<open>RandomIFS_fields\<close>, of which the finished object is an extension.
\<close>

record RandomIFS_fields =
  canvas :: HTMLCanvasElement
  ctx :: CanvasRenderingContext2D
  matrices :: "real list list"
  transformProbs :: "real list"
  numPoints :: real
  numIters :: nat
  pointsDrawn :: nat
  x0 :: real
  y0 :: real
  a1 :: real
  b1 :: real
  a2 :: real
  b2 :: real

record RandomIFS = RandomIFS_fields +
  currentPoint :: Coordinate

type_synonym rng = "nat \<Rightarrow> real"

definition POINT_TOLERANCE :: real where
  "POINT_TOLERANCE = 2"

definition FIXED_PT_TRIES :: nat where
  "FIXED_PT_TRIES = 1000"

subsection \<open>Static methods\<close>

text \<open>Reading an array: an index out of range gives \<^verbatim>\<open>undefined\<close>, here \<open>None\<close>.\<close>

definition arrayAt :: "'v list \<Rightarrow> nat \<Rightarrow> 'v option" where
  "arrayAt xs i = (if i < length xs then Some (xs ! i) else None)"

definition applyMatrix :: "real list \<Rightarrow> Coordinate \<Rightarrow> Coordinate" where
  "applyMatrix matrix p =
     \<lparr>x = of_int \<lfloor>matrix ! 0 * x p + matrix ! 1 * y p + matrix ! 4\<rfloor>,
      y = of_int \<lfloor>matrix ! 2 * x p + matrix ! 3 * y p + matrix ! 5\<rfloor>\<rparr>"

definition gatherMatrices :: "AffineTransform list \<Rightarrow> real list list" where
  "gatherMatrices affineTransforms = map createMatrix affineTransforms"

subsection \<open>Instance methods\<close>

definition calibrateAffineTransforms ::
    "HTMLCanvasElement \<Rightarrow> AffineTransform list \<Rightarrow> AffineTransform list" where
  "calibrateAffineTransforms cv affineTransforms =
     map (\<lambda>t. t\<lparr>e := e t * real (width cv), f := f t * real (height cv)\<rparr>) affineTransforms"

text \<open>
  \<^verbatim>\<open>randomMatrix\<close>: the loop over the indices, on the draw \<open>rand\<close>. A comparison with
  \<^verbatim>\<open>undefined\<close> (a read behind the end of \<^verbatim>\<open>transformProbs\<close>) is false. After the
  loop, \<^verbatim>\<open>matrices[matrices.length-1]\<close> reads the index \<open>-1\<close> of an empty table, which
  is \<^verbatim>\<open>undefined\<close>.
\<close>

definition inInterval :: "real \<Rightarrow> real option \<Rightarrow> real option \<Rightarrow> bool" where
  "inInterval rand thisProb nextProb =
     (case (thisProb, nextProb) of
        (Some lo, Some hi) \<Rightarrow> rand \<ge> lo \<and> rand \<le> hi
      | _ \<Rightarrow> False)"

function randomMatrixLoop ::
    "real list list \<Rightarrow> real list \<Rightarrow> real \<Rightarrow> nat \<Rightarrow> real list option" where
  "randomMatrixLoop ms ps rand i =
     (if i < length ms then
        (if inInterval rand (arrayAt ps i) (arrayAt ps (i + 1)) then Some (ms ! i)
         else randomMatrixLoop ms ps rand (i + 1))
      else if length ms = 0 then None
      else arrayAt ms (length ms - 1))"
  by pat_completeness auto
termination
  by (relation "measure (\<lambda>(ms, ps, rand, i). length ms - i)") auto

declare randomMatrixLoop.simps [simp del]

definition randomMatrix ::
    "'z RandomIFS_fields_scheme \<Rightarrow> rng \<Rightarrow> nat \<Rightarrow> real list option \<times> nat" where
  "randomMatrix this rs k =
     (randomMatrixLoop (matrices this) (transformProbs this) (rs k) 0, k + 1)"

definition windowTransform :: "'z RandomIFS_fields_scheme \<Rightarrow> Coordinate \<Rightarrow> Coordinate" where
  "windowTransform this p =
     \<lparr>x = (x p - x0 this) * (b1 this - a1 this),
      y = (y p - y0 this) * (b2 this - a2 this)\<rparr>"

definition invWindowTransform :: "'z RandomIFS_fields_scheme \<Rightarrow> Coordinate \<Rightarrow> Coordinate" where
  "invWindowTransform this p =
     \<lparr>x = of_int \<lfloor>x p / (b1 this - a1 this) + x0 this\<rfloor>,
      y = of_int \<lfloor>y p / (b2 this - a2 this) + y0 this\<rfloor>\<rparr>"

text \<open>
  \<^verbatim>\<open>getRandomInt\<close>, the local function of the search, on the draw \<open>r\<close>.
\<close>

definition getRandomInt :: "real \<Rightarrow> nat \<Rightarrow> real" where
  "getRandomInt r mx = of_int \<lfloor>r * real mx\<rfloor>"

text \<open>
  The \<^verbatim>\<open>for\<close> loop of \<^verbatim>\<open>findFixedPointStochastic\<close> on the chosen matrix: each trial
  makes two draws. The result is the point returned from inside the loop, or \<open>None\<close> when
  the \<open>FIXED_PT_TRIES\<close> trials are used up, and the cursor.
\<close>

function fixedPointTrials ::
    "'z RandomIFS_fields_scheme \<Rightarrow> rng \<Rightarrow> real list \<Rightarrow> nat \<Rightarrow> nat \<Rightarrow> Coordinate option \<times> nat" where
  "fixedPointTrials this rs matrix i k =
     (if i < FIXED_PT_TRIES then
        (let randomPoint = \<lparr>x = getRandomInt (rs k) (width (canvas this)),
                            y = getRandomInt (rs (k + 1)) (height (canvas this))\<rparr>;
             randomPointWindowTransformed = windowTransform this randomPoint;
             transformedPoint = applyMatrix matrix randomPointWindowTransformed;
             distX = \<bar>x randomPointWindowTransformed - x transformedPoint\<bar>;
             distY = \<bar>y randomPointWindowTransformed - y transformedPoint\<bar>
         in if distX \<le> POINT_TOLERANCE \<and> distY \<le> POINT_TOLERANCE
            then (Some randomPointWindowTransformed, k + 2)
            else fixedPointTrials this rs matrix (i + 1) (k + 2))
      else (None, k))"
  by pat_completeness auto
termination
  by (relation "measure (\<lambda>(this, rs, matrix, i, k). FIXED_PT_TRIES - i)") auto

declare fixedPointTrials.simps [simp del]

text \<open>
  \<^verbatim>\<open>findFixedPointStochastic\<close>: the \<^verbatim>\<open>while (true)\<close> loop has no exit but the
  \<^verbatim>\<open>return\<close> of a successful trial, so it may run forever. The first argument bounds
  the number of rounds: \<open>None\<close> is a search that has not returned within that many
  rounds. On an empty table the chosen matrix is \<^verbatim>\<open>undefined\<close> and the first
  \<^verbatim>\<open>applyMatrix\<close> throws a TypeError.
\<close>

fun findFixedPointStochastic ::
    "nat \<Rightarrow> 'z RandomIFS_fields_scheme \<Rightarrow> rng \<Rightarrow> nat \<Rightarrow> (error + Coordinate \<times> nat) option" where
  "findFixedPointStochastic 0 this rs k = None"
| "findFixedPointStochastic (Suc rounds) this rs k =
     (case randomMatrix this rs k of
        (None, k1) \<Rightarrow> Some (Inl TypeError)
      | (Some matrix, k1) \<Rightarrow>
          (case fixedPointTrials this rs matrix 0 k1 of
             (Some p, k2) \<Rightarrow> Some (Inr (p, k2))
           | (None, k2) \<Rightarrow> findFixedPointStochastic rounds this rs k2))"

text \<open>Drawing: \<^verbatim>\<open>fillStyle\<close> is set, then one rectangle is filled.\<close>

definition fillRect :: "CanvasRenderingContext2D \<Rightarrow> real \<Rightarrow> real \<Rightarrow> real \<Rightarrow> real \<Rightarrow> CanvasRenderingContext2D" where
  "fillRect cx px py pw ph =
     cx\<lparr>filled := filled cx @ [\<lparr>style = fillStyle cx, rx = px, ry = py, rw = pw, rh = ph\<rparr>]\<rparr>"

definition drawCurrentPointRed :: "RandomIFS \<Rightarrow> RandomIFS" where
  "drawCurrentPointRed this =
     (let pointInWindow = invWindowTransform this (currentPoint this);
          cx = (ctx this)\<lparr>fillStyle := ''red''\<rparr>
      in this\<lparr>ctx := fillRect cx (x pointInWindow)
                   (real (height (canvas this)) - y pointInWindow) 4 4\<rparr>)"

definition drawCurrentPoint :: "RandomIFS \<Rightarrow> RandomIFS" where
  "drawCurrentPoint this =
     (let pointInWindow = invWindowTransform this (currentPoint this);
          cx = (ctx this)\<lparr>fillStyle := ''black''\<rparr>
      in this\<lparr>ctx := fillRect cx (x pointInWindow)
                   (real (height (canvas this)) - y pointInWindow) 2 2\<rparr>)"

text \<open>
  \<^verbatim>\<open>updateCurrentPoint\<close>: on an empty table \<^verbatim>\<open>randomMatrix\<close> gives \<^verbatim>\<open>undefined\<close> and
  \<^verbatim>\<open>applyMatrix\<close> throws a TypeError reading its entry 0.
\<close>

definition updateCurrentPoint :: "rng \<Rightarrow> RandomIFS \<times> nat \<Rightarrow> error + RandomIFS \<times> nat" where
  "updateCurrentPoint rs = (\<lambda>(this, k).
     (case randomMatrix this rs k of
        (None, k1) \<Rightarrow> Inl TypeError
      | (Some rM, k1) \<Rightarrow> Inr (this\<lparr>currentPoint := applyMatrix rM (currentPoint this)\<rparr>, k1)))"

text \<open>
  The body of the \<^verbatim>\<open>for\<close> loop of \<^verbatim>\<open>iterate\<close>, and the loop from the index \<open>i\<close>.
  An exception ends the call: the result is then the error alone.
\<close>

definition iterateBody :: "rng \<Rightarrow> RandomIFS \<times> nat \<Rightarrow> error + RandomIFS \<times> nat" where
  "iterateBody rs = (\<lambda>(this, k).
     (let this1 = (if pointsDrawn this < 10 then drawCurrentPointRed this
                   else drawCurrentPoint this)
      in case updateCurrentPoint rs (this1, k) of
           Inl err \<Rightarrow> Inl err
         | Inr (this2, k2) \<Rightarrow> Inr (this2\<lparr>pointsDrawn := pointsDrawn this2 + 1\<rparr>, k2)))"

lemma iterateBody_numPoints:
  "iterateBody rs (this, k) = Inr (this', k') \<Longrightarrow> numPoints this' = numPoints this"
  by (auto simp: iterateBody_def updateCurrentPoint_def drawCurrentPointRed_def
      drawCurrentPoint_def Let_def split: if_splits prod.splits option.splits)

function iterateLoop :: "rng \<Rightarrow> nat \<Rightarrow> RandomIFS \<times> nat \<Rightarrow> error + RandomIFS \<times> nat" where
  "iterateLoop rs i (this, k) =
     (if real i < numPoints this then
        (case iterateBody rs (this, k) of
           Inl err \<Rightarrow> Inl err
         | Inr (this', k') \<Rightarrow> iterateLoop rs (i + 1) (this', k'))
      else Inr (this, k))"
  by pat_completeness auto
termination
proof (relation "measure (\<lambda>(rs, i, (this, k)). nat \<lceil>numPoints this\<rceil> - i)")
  show "wf (measure (\<lambda>(rs, i, (this, k)). nat \<lceil>numPoints this\<rceil> - i))"
    by simp
next
  fix rs :: rng and i :: nat and this :: RandomIFS and k :: nat
    and r :: "RandomIFS \<times> nat" and this' :: RandomIFS and k' :: nat
  assume lt: "real i < numPoints this"
    and body: "iterateBody rs (this, k) = Inr r" and r: "(this', k') = r"
  have np: "numPoints this' = numPoints this"
    using body r iterateBody_numPoints [of rs this k this' k'] by simp
  have "i < nat \<lceil>numPoints this\<rceil>"
    using lt by linarith
  then show "((rs, i + 1, this', k'), (rs, i, this, k))
      \<in> measure (\<lambda>(rs, i, (this, k)). nat \<lceil>numPoints this\<rceil> - i)"
    using np by simp
qed

declare iterateLoop.simps [simp del]

definition iterate :: "rng \<Rightarrow> RandomIFS \<times> nat \<Rightarrow> error + RandomIFS \<times> nat" where
  "iterate rs = (\<lambda>(this, k). iterateLoop rs 0 (this\<lparr>numIters := numIters this + 1\<rparr>, k))"

text \<open>
  The constructor. With no starting point it runs the search, which may throw or never
  return (\<open>None\<close>: not returned within \<open>rounds\<close> rounds). The source validates none of
  its arguments and raises no error of its own.
\<close>

definition RandomIFS_new ::
    "nat \<Rightarrow> rng \<Rightarrow> nat \<Rightarrow> HTMLCanvasElement \<Rightarrow> ProbabilityAffineTable \<Rightarrow> real \<Rightarrow>
     WindowCoordinates \<Rightarrow> Coordinate option \<Rightarrow> (error + RandomIFS \<times> nat) option" where
  "RandomIFS_new rounds rs k cv table numPts window startingPoint =
     (let wa1 = WindowCoordinates.a1 window; wb1 = WindowCoordinates.b1 window;
          wa2 = WindowCoordinates.a2 window; wb2 = WindowCoordinates.b2 window;
          affineTransforms = calibrateAffineTransforms cv (collectTransforms table);
          this = \<lparr>canvas = cv, ctx = getContext cv,
                  matrices = gatherMatrices affineTransforms,
                  transformProbs = collectProbabilities table,
                  numPoints = numPts, numIters = 0, pointsDrawn = 0,
                  x0 = ((- wa1) / (wb1 - wa1)) * real (width cv),
                  y0 = ((- wa2) / (wb2 - wa2)) * real (height cv),
                  a1 = wa1, b1 = wb1, a2 = wa2, b2 = wb2\<rparr>
      in case startingPoint of
           None \<Rightarrow>
             (case findFixedPointStochastic rounds this rs k of
                None \<Rightarrow> None
              | Some (Inl err) \<Rightarrow> Some (Inl err)
              | Some (Inr (p, k')) \<Rightarrow>
                  Some (Inr (RandomIFS_fields.extend this (RandomIFS.fields p), k')))
         | Some p \<Rightarrow> Some (Inr (RandomIFS_fields.extend this (RandomIFS.fields p), k)))"

subsection \<open>The lifetime of an orbit\<close>

text \<open>
  The states an orbit goes through: the one the constructor returns, then the one each
  returning call of \<^verbatim>\<open>iterate\<close> leaves. \<^verbatim>\<open>numPoints\<close> is a public, writable field, so
  the caller may set it before any call; \<^verbatim>\<open>Math.random\<close> may have been drawn from by
  others in between, so each call has its own source and cursor. \<open>cv\<close> is the canvas the
  orbit was constructed on.
\<close>

inductive lifetime :: "HTMLCanvasElement \<Rightarrow> RandomIFS \<Rightarrow> bool" for cv :: HTMLCanvasElement where
  constructed:
    "RandomIFS_new rounds rs k cv table numPts window startingPoint = Some (Inr (this, k'))
     \<Longrightarrow> lifetime cv this"
| iterated:
    "lifetime cv this \<Longrightarrow> iterate rs (this\<lparr>numPoints := n\<rparr>, k) = Inr (this', k')
     \<Longrightarrow> lifetime cv this'"

text \<open>
  The rectangles the orbit has filled: those behind the ones the context of the canvas
  held at construction. A highlight emission is the 4 by 4 red rectangle of
  \<^verbatim>\<open>drawCurrentPointRed\<close>, a default one the 2 by 2 black rectangle of
  \<^verbatim>\<open>drawCurrentPoint\<close>.
\<close>

definition emitted :: "HTMLCanvasElement \<Rightarrow> RandomIFS \<Rightarrow> Rect list" where
  "emitted cv this = drop (length (filled (getContext cv))) (filled (ctx this))"

definition highlightEmission :: "Rect \<Rightarrow> bool" where
  "highlightEmission r = (style r = ''red'' \<and> rw r = 4 \<and> rh r = 4)"

definition defaultEmission :: "Rect \<Rightarrow> bool" where
  "defaultEmission r = (style r = ''black'' \<and> rw r = 2 \<and> rh r = 2)"

text \<open>The kind the emission of index \<open>j\<close> (counted from 0 over the lifetime) is to have.\<close>

definition emissionKindOk :: "nat \<Rightarrow> Rect \<Rightarrow> bool" where
  "emissionKindOk j r = (if j < 10 then highlightEmission r else defaultEmission r)"

subsection \<open>Notions of the specification\<close>

text \<open>\<^verbatim>\<open>Number.isInteger\<close>, on a coordinate and on a point.\<close>

definition isInteger :: "real \<Rightarrow> bool" where
  "isInteger v = (of_int \<lfloor>v\<rfloor> = v)"

definition isIntegerPoint :: "Coordinate \<Rightarrow> bool" where
  "isIntegerPoint p = (isInteger (x p) \<and> isInteger (y p))"

text \<open>
  A valid cumulative-probability array for \<open>n\<close> transforms: \<open>n + 1\<close> entries, not
  decreasing, from \<open>0\<close> to \<open>1\<close>.
\<close>

definition validCumulative :: "real list \<Rightarrow> nat \<Rightarrow> bool" where
  "validCumulative cum n = (length cum = n + 1 \<and> cum ! 0 = 0 \<and> cum ! n = 1 \<and> sorted cum)"

text \<open>
  The sampling rule in the words of the specification, to compare \<^verbatim>\<open>randomMatrix\<close>
  with: the transform at the smallest index \<open>i\<close> with \<open>cum[i] \<le> u < cum[i+1]\<close>, and the
  last transform for the draw \<open>1\<close>.
\<close>

definition sampleSpec :: "real list list \<Rightarrow> real list \<Rightarrow> real \<Rightarrow> real list option" where
  "sampleSpec ms cum u =
     (if u = 1 then (if ms = [] then None else Some (last ms))
      else map_option (\<lambda>i. ms ! i)
             (find (\<lambda>i. cum ! i \<le> u \<and> u < cum ! (i + 1)) [0..<length ms]))"

subsection \<open>The end-to-end scenario of the specification\<close>

text \<open>
  Two halving maps, towards the origin and towards \<open>(1,1)\<close>, each of probability
  \<open>1/2\<close>; the unit window; a canvas of 100 by 100 with nothing drawn; the orbit seeded at
  \<open>(0,0)\<close>, here with 12 points per call.
\<close>

definition scenarioTable :: ProbabilityAffineTable where
  "scenarioTable =
     \<lparr>collectTransforms =
        [\<lparr>a = 1/2, b = 0, c = 0, d = 1/2, e = 0, f = 0\<rparr>,
         \<lparr>a = 1/2, b = 0, c = 0, d = 1/2, e = 1/2, f = 1/2\<rparr>],
      collectProbabilities = [0, 1/2, 1]\<rparr>"

definition scenarioCanvas :: HTMLCanvasElement where
  "scenarioCanvas = \<lparr>width = 100, height = 100, getContext = \<lparr>fillStyle = ''#000000'', filled = []\<rparr>\<rparr>"

definition scenarioWindow :: WindowCoordinates where
  "scenarioWindow = \<lparr>WindowCoordinates.a1 = 0, b1 = 1, a2 = 0, b2 = 1\<rparr>"

definition scenarioOrbit :: RandomIFS where
  "scenarioOrbit =
     \<lparr>canvas = scenarioCanvas, ctx = \<lparr>fillStyle = ''#000000'', filled = []\<rparr>,
      matrices = [[1/2, 0, 0, 1/2, 0, 0], [1/2, 0, 0, 1/2, 50, 50]],
      transformProbs = [0, 1/2, 1],
      numPoints = 12, numIters = 0, pointsDrawn = 0,
      x0 = 0, y0 = 0, a1 = 0, b1 = 1, a2 = 0, b2 = 1,
      currentPoint = \<lparr>x = 0, y = 0\<rparr>\<rparr>"

text \<open>The orbit of the scenario after one call of \<^verbatim>\<open>iterate\<close> whose draws are all \<open>3/4\<close>.\<close>

definition scenarioOrbit1 :: RandomIFS where
  "scenarioOrbit1 =
     scenarioOrbit
       \<lparr>ctx := \<lparr>fillStyle = ''black'',
                filled =
                  [\<lparr>style = ''red'', rx = 0, ry = 100, rw = 4, rh = 4\<rparr>,
                   \<lparr>style = ''red'', rx = 50, ry = 50, rw = 4, rh = 4\<rparr>,
                   \<lparr>style = ''red'', rx = 75, ry = 25, rw = 4, rh = 4\<rparr>,
                   \<lparr>style = ''red'', rx = 87, ry = 13, rw = 4, rh = 4\<rparr>,
                   \<lparr>style = ''red'', rx = 93, ry = 7, rw = 4, rh = 4\<rparr>,
                   \<lparr>style = ''red'', rx = 96, ry = 4, rw = 4, rh = 4\<rparr>,
                   \<lparr>style = ''red'', rx = 98, ry = 2, rw = 4, rh = 4\<rparr>,
                   \<lparr>style = ''red'', rx = 99, ry = 1, rw = 4, rh = 4\<rparr>,
                   \<lparr>style = ''red'', rx = 99, ry = 1, rw = 4, rh = 4\<rparr>,
                   \<lparr>style = ''red'', rx = 99, ry = 1, rw = 4, rh = 4\<rparr>,
                   \<lparr>style = ''black'', rx = 99, ry = 1, rw = 2, rh = 2\<rparr>,
                   \<lparr>style = ''black'', rx = 99, ry = 1, rw = 2, rh = 2\<rparr>]\<rparr>,
        numIters := 1, pointsDrawn := 12, currentPoint := \<lparr>x = 99, y = 99\<rparr>\<rparr>"

section \<open>Auxiliary facts\<close>

text \<open>The constructor builds the orbit of the scenario.\<close>

lemma scenarioOrbit_constructed:
  "RandomIFS_new rounds rs k scenarioCanvas scenarioTable 12 scenarioWindow (Some \<lparr>x = 0, y = 0\<rparr>)
     = Some (Inr (scenarioOrbit, k))"
  by (simp add: RandomIFS_new_def scenarioCanvas_def scenarioTable_def scenarioWindow_def
      scenarioOrbit_def calibrateAffineTransforms_def gatherMatrices_def createMatrix_def
      RandomIFS_fields.extend_def RandomIFS.fields_def)

text \<open>The definitions that evaluate a call of \<^verbatim>\<open>iterate\<close> on a concrete input.\<close>

lemmas iterate_eval =
  iterate_def iterateLoop.simps iterateBody_def updateCurrentPoint_def randomMatrix_def
  randomMatrixLoop.simps inInterval_def arrayAt_def applyMatrix_def drawCurrentPointRed_def
  drawCurrentPoint_def invWindowTransform_def fillRect_def

lemma scenarioOrbit_iterated:
  "iterate (\<lambda>n. 3/4) (scenarioOrbit, 0) = Inr (scenarioOrbit1, 12)"
  by (simp add: scenarioOrbit1_def scenarioOrbit_def scenarioCanvas_def iterate_eval)

subsection \<open>The scan of \<^verbatim>\<open>randomMatrix\<close>\<close>

lemma randomMatrixLoop_Some:
  "ms \<noteq> [] \<Longrightarrow> \<exists>m. randomMatrixLoop ms ps u i = Some m"
proof (induction ms ps u i rule: randomMatrixLoop.induct)
  case (1 ms ps rand i)
  show ?case
  proof (cases "i < length ms")
    case True
    then show ?thesis
      using 1 by (subst randomMatrixLoop.simps) auto
  next
    case False
    then show ?thesis
      using 1(2) by (subst randomMatrixLoop.simps) (simp add: arrayAt_def)
  qed
qed


text \<open>The loop returns at the first index from \<open>i\<close> whose closed interval holds the draw.\<close>

lemma randomMatrixLoop_first:
  assumes "i \<le> j" "j < length ms"
    and "inInterval u (arrayAt ps j) (arrayAt ps (j + 1))"
    and "\<And>l. i \<le> l \<Longrightarrow> l < j \<Longrightarrow> \<not> inInterval u (arrayAt ps l) (arrayAt ps (l + 1))"
  shows "randomMatrixLoop ms ps u i = Some (ms ! j)"
  using assms
proof (induction ms ps u i rule: randomMatrixLoop.induct)
  case (1 ms ps rand i)
  show ?case
  proof (cases "i = j")
    case True
    then show ?thesis
      using 1(3,4) by (subst randomMatrixLoop.simps) simp
  next
    case False
    then have lt: "i < j" using 1(2) by simp
    then have no: "\<not> inInterval rand (arrayAt ps i) (arrayAt ps (i + 1))"
      using 1(5) by simp
    have "randomMatrixLoop ms ps rand (i + 1) = Some (ms ! j)"
      using 1(1) [OF _ no _ 1(3) 1(4)] lt 1(3) 1(5) by simp
    then show ?thesis
      using lt 1(3) no by (subst randomMatrixLoop.simps) simp
  qed
qed

lemma interval_exists:
  assumes len: "length cum = n + 1" and z: "cum ! 0 = 0" and o: "cum ! n = 1"
    and u: "0 \<le> u" "u \<le> (1::real)" and n: "0 < n"
  shows "\<exists>j<n. cum ! j \<le> u \<and> u \<le> cum ! (j + 1)
           \<and> (\<forall>l<j. \<not> (cum ! l \<le> u \<and> u \<le> cum ! (l + 1)))"
proof -
  define P where "P j = (j < n \<and> cum ! j \<le> u \<and> u \<le> cum ! (j + 1))" for j
  have ex: "\<exists>j. P j"
  proof -
    define Q where "Q j = (u \<le> cum ! (j + 1))" for j
    have "Q (n - 1)" using o u n by (simp add: Q_def)
    then have Ql: "Q (LEAST j. Q j)" by (rule LeastI)
    have le: "(LEAST j. Q j) \<le> n - 1" using \<open>Q (n - 1)\<close> by (rule Least_le)
    show ?thesis
    proof (cases "(LEAST j. Q j)")
      case 0
      then have "P 0" using Ql z u n by (simp add: P_def Q_def)
      then show ?thesis ..
    next
      case (Suc m)
      have "\<not> Q m" using not_less_Least [of m Q] Suc by simp
      then have "cum ! (m + 1) < u" by (simp add: Q_def)
      then have "P (Suc m)" using Ql Suc le n by (simp add: P_def Q_def)
      then show ?thesis ..
    qed
  qed
  then obtain m where m: "P m" "\<forall>l<m. \<not> P l"
    using exists_least_iff [of P] by blast
  have "m < n \<and> cum ! m \<le> u \<and> u \<le> cum ! (m + 1)
          \<and> (\<forall>l<m. \<not> (cum ! l \<le> u \<and> u \<le> cum ! (l + 1)))"
  proof (intro conjI allI impI)
    fix l assume "l < m"
    then have "\<not> P l" "l < n" using m by (auto simp: P_def)
    then show "\<not> (cum ! l \<le> u \<and> u \<le> cum ! (l + 1))" by (simp add: P_def)
  qed (use m(1) in \<open>simp_all add: P_def\<close>)
  then show ?thesis by blast
qed


subsection \<open>The fixed-point search\<close>

lemma fixedPointTrials_result:
  "fixedPointTrials this rs m i k = (Some p, k') \<Longrightarrow>
     \<bar>x p - x (applyMatrix m p)\<bar> \<le> POINT_TOLERANCE
     \<and> \<bar>y p - y (applyMatrix m p)\<bar> \<le> POINT_TOLERANCE \<and> k < k'"
proof (induction this rs m i k rule: fixedPointTrials.induct)
  case (1 this rs matrix i k)
  from 1(2) show ?case
    apply (subst (asm) fixedPointTrials.simps)
    using 1(1) by (fastforce simp: Let_def split: if_splits)
qed

lemma fixedPointTrials_cursor:
  "fixedPointTrials this rs m i k = (r, k') \<Longrightarrow> k \<le> k'"
proof (induction this rs m i k rule: fixedPointTrials.induct)
  case (1 this rs matrix i k)
  from 1(2) show ?case
    apply (subst (asm) fixedPointTrials.simps)
    using 1(1) by (fastforce simp: Let_def split: if_splits)
qed

lemma findFixedPointStochastic_result:
  "findFixedPointStochastic rounds this rs k = Some (Inr (p, k')) \<Longrightarrow>
     \<exists>j T. k \<le> j \<and> j < k' \<and> randomMatrix this rs j = (Some T, j + 1)
       \<and> \<bar>x p - x (applyMatrix T p)\<bar> \<le> POINT_TOLERANCE
       \<and> \<bar>y p - y (applyMatrix T p)\<bar> \<le> POINT_TOLERANCE"
proof (induction rounds arbitrary: k)
  case 0
  then show ?case by simp
next
  case (Suc rounds)
  obtain mo k1 where rm: "randomMatrix this rs k = (mo, k1)"
    by (cases "randomMatrix this rs k")
  then have k1: "k1 = k + 1" by (simp add: randomMatrix_def)
  from Suc.prems rm obtain T where T: "mo = Some T"
    by (cases mo) simp_all
  obtain r k2 where tr: "fixedPointTrials this rs T 0 k1 = (r, k2)"
    by (cases "fixedPointTrials this rs T 0 k1")
  show ?case
  proof (cases r)
    case None
    then have "findFixedPointStochastic rounds this rs k2 = Some (Inr (p, k'))"
      using Suc.prems rm T tr by simp
    from Suc.IH [OF this] obtain j T' where
      "k2 \<le> j" "j < k'" "randomMatrix this rs j = (Some T', j + 1)"
      "\<bar>x p - x (applyMatrix T' p)\<bar> \<le> POINT_TOLERANCE"
      "\<bar>y p - y (applyMatrix T' p)\<bar> \<le> POINT_TOLERANCE"
      by blast
    moreover have "k \<le> k2"
      using fixedPointTrials_cursor [OF tr] k1 by simp
    ultimately show ?thesis
      by (intro exI [of _ j] exI [of _ T']) simp
  next
    case (Some q)
    then have q: "q = p" "k2 = k'"
      using Suc.prems rm T tr by simp_all
    then have "\<bar>x p - x (applyMatrix T p)\<bar> \<le> POINT_TOLERANCE
       \<and> \<bar>y p - y (applyMatrix T p)\<bar> \<le> POINT_TOLERANCE \<and> k1 < k'"
      using fixedPointTrials_result [of this rs T 0 k1 p k'] tr Some by simp
    then show ?thesis
      using rm T k1 by (intro exI [of _ k] exI [of _ T]) simp
  qed
qed

text \<open>The definitions that evaluate a search on a concrete input.\<close>

lemmas search_eval =
  randomMatrix_def randomMatrixLoop.simps inInterval_def arrayAt_def
  fixedPointTrials.simps FIXED_PT_TRIES_def POINT_TOLERANCE_def getRandomInt_def
  windowTransform_def applyMatrix_def

subsection \<open>One point of \<^verbatim>\<open>iterate\<close>\<close>

lemma iterateBody_eq:
  "iterateBody rs (this, k) =
     (case randomMatrixLoop (matrices this) (transformProbs this) (rs k) 0 of
        None \<Rightarrow> Inl TypeError
      | Some rM \<Rightarrow>
          Inr ((if pointsDrawn this < 10 then drawCurrentPointRed this else drawCurrentPoint this)
                 \<lparr>currentPoint := applyMatrix rM (currentPoint this),
                  pointsDrawn := pointsDrawn this + 1\<rparr>, k + 1))"
  by (simp add: iterateBody_def updateCurrentPoint_def randomMatrix_def Let_def
      drawCurrentPointRed_def drawCurrentPoint_def split: option.splits)

lemma isIntegerPoint_applyMatrix: "isIntegerPoint (applyMatrix m p)"
  by (simp add: isIntegerPoint_def isInteger_def applyMatrix_def)

lemma iterateBody_total:
  "matrices this \<noteq> [] \<Longrightarrow> \<exists>this'. iterateBody rs (this, k) = Inr (this', k + 1)"
  using randomMatrixLoop_Some [of "matrices this" "transformProbs this" "rs k" 0]
  by (auto simp: iterateBody_eq)

lemma iterateBody_fields:
  assumes "iterateBody rs (this, k) = Inr (this', k')"
  shows "numIters this' = numIters this" and "pointsDrawn this' = pointsDrawn this + 1"
    and "matrices this' = matrices this" and "numPoints this' = numPoints this"
    and "isIntegerPoint (currentPoint this')"
  using assms
  by (auto simp: iterateBody_eq drawCurrentPointRed_def drawCurrentPoint_def Let_def
      isIntegerPoint_applyMatrix split: option.splits if_splits)

lemma iterateBody_emission:
  assumes "iterateBody rs (this, k) = Inr (this', k')"
  shows "\<exists>r. filled (ctx this') = filled (ctx this) @ [r] \<and> emissionKindOk (pointsDrawn this) r"
  using assms
  by (auto simp: iterateBody_eq drawCurrentPointRed_def drawCurrentPoint_def Let_def
      fillRect_def emissionKindOk_def highlightEmission_def defaultEmission_def
      split: option.splits if_splits)

subsection \<open>The loop of \<^verbatim>\<open>iterate\<close>\<close>

lemma iterateLoop_total:
  "matrices this \<noteq> [] \<Longrightarrow> \<exists>this' k'. iterateLoop rs i (this, k) = Inr (this', k')"
proof (induction rs i "(this, k)" arbitrary: this k rule: iterateLoop.induct)
  case (1 rs i this k)
  show ?case
  proof (cases "real i < numPoints this")
    case True
    obtain this1 where b: "iterateBody rs (this, k) = Inr (this1, k + 1)"
      using iterateBody_total [OF 1(2)] by blast
    have "matrices this1 \<noteq> []"
      using iterateBody_fields(3) [OF b] 1(2) by simp
    from 1(1) [OF True b refl this] show ?thesis
      using True b by (subst iterateLoop.simps) simp
  next
    case False
    then show ?thesis by (subst iterateLoop.simps) simp
  qed
qed

lemma iterateLoop_counters:
  "iterateLoop rs i (this, k) = Inr (this', k') \<Longrightarrow>
     numIters this' = numIters this \<and> matrices this' = matrices this
     \<and> pointsDrawn this' = pointsDrawn this + (nat \<lceil>numPoints this\<rceil> - i)"
proof (induction rs i "(this, k)" arbitrary: this k rule: iterateLoop.induct)
  case (1 rs i this k)
  show ?case
  proof (cases "real i < numPoints this")
    case True
    then obtain this1 k1 where b: "iterateBody rs (this, k) = Inr (this1, k1)"
      and l: "iterateLoop rs (i + 1) (this1, k1) = Inr (this', k')"
      using 1(2) by (subst (asm) iterateLoop.simps) (auto split: sum.splits)
    have lt: "i < nat \<lceil>numPoints this\<rceil>" using True by linarith
    from 1(1) [OF True b refl l] iterateBody_fields [OF b] lt
    show ?thesis by simp
  next
    case False
    then have "nat \<lceil>numPoints this\<rceil> \<le> i"
      by (simp add: ceiling_le_iff nat_le_iff)
    moreover have "this' = this"
      using 1(2) False by (subst (asm) iterateLoop.simps) simp
    ultimately show ?thesis by simp
  qed
qed


lemma iterateLoop_emissions:
  "iterateLoop rs i (this, k) = Inr (this', k') \<Longrightarrow>
     filled (ctx this) = base @ pts \<Longrightarrow> length pts = pointsDrawn this \<Longrightarrow>
     \<forall>j<length pts. emissionKindOk j (pts ! j) \<Longrightarrow>
     \<exists>pts'. filled (ctx this') = base @ pts' \<and> length pts' = pointsDrawn this'
       \<and> (\<forall>j<length pts'. emissionKindOk j (pts' ! j))"
proof (induction rs i "(this, k)" arbitrary: this k pts rule: iterateLoop.induct)
  case (1 rs i this k)
  show ?case
  proof (cases "real i < numPoints this")
    case True
    then obtain this1 k1 where b: "iterateBody rs (this, k) = Inr (this1, k1)"
      and l: "iterateLoop rs (i + 1) (this1, k1) = Inr (this', k')"
      using 1(2) by (subst (asm) iterateLoop.simps) (auto split: sum.splits)
    obtain r where r: "filled (ctx this1) = filled (ctx this) @ [r]"
        "emissionKindOk (pointsDrawn this) r"
      using iterateBody_emission [OF b] by blast
    have f: "filled (ctx this1) = base @ (pts @ [r])"
      using r(1) 1(3) by simp
    have n: "length (pts @ [r]) = pointsDrawn this1"
      using 1(4) iterateBody_fields(2) [OF b] by simp
    have ok: "\<forall>j<length (pts @ [r]). emissionKindOk j ((pts @ [r]) ! j)"
      using 1(5) r(2) 1(4) by (auto simp: nth_append less_Suc_eq)
    from 1(1) [OF True b refl l f n ok] show ?thesis .
  next
    case False
    then have "this' = this"
      using 1(2) by (subst (asm) iterateLoop.simps) simp
    then show ?thesis using 1(3,4,5) by blast
  qed
qed

subsection \<open>The calls of \<^verbatim>\<open>iterate\<close> and of the constructor\<close>

lemma iterate_total:
  "matrices this \<noteq> [] \<Longrightarrow> \<exists>this' k'. iterate rs (this, k) = Inr (this', k')"
  using iterateLoop_total [of "this\<lparr>numIters := numIters this + 1\<rparr>" rs 0 k]
  by (simp add: iterate_def)

lemma iterate_fields:
  assumes "iterate rs (this, k) = Inr (this', k')"
  shows "numIters this' = numIters this + 1" and "matrices this' = matrices this"
    and "pointsDrawn this' = pointsDrawn this + nat \<lceil>numPoints this\<rceil>"
  using iterateLoop_counters [of rs 0 "this\<lparr>numIters := numIters this + 1\<rparr>" k this' k'] assms
  by (simp_all add: iterate_def)


lemma iterate_emissions:
  assumes "iterate rs (this, k) = Inr (this', k')"
    and "filled (ctx this) = base @ pts" and "length pts = pointsDrawn this"
    and "\<forall>j<length pts. emissionKindOk j (pts ! j)"
  shows "\<exists>pts'. filled (ctx this') = base @ pts' \<and> length pts' = pointsDrawn this'
       \<and> (\<forall>j<length pts'. emissionKindOk j (pts' ! j))"
  using iterateLoop_emissions [of rs 0 "this\<lparr>numIters := numIters this + 1\<rparr>" k this' k' base pts]
    assms
  by (simp add: iterate_def)

lemma iterateLoop_error:
  "iterateLoop rs i (this, k) = Inl err \<Longrightarrow> err = TypeError"
proof (induction rs i "(this, k)" arbitrary: this k rule: iterateLoop.induct)
  case (1 rs i this k)
  show ?case
  proof (cases "iterateBody rs (this, k)")
    case (Inl e')
    then have "e' = TypeError"
      by (auto simp: iterateBody_eq split: option.splits)
    then show ?thesis
      using 1(2) Inl by (subst (asm) iterateLoop.simps) (simp split: if_splits)
  next
    case (Inr sk)
    obtain this1 k1 where sk: "sk = (this1, k1)" by (cases sk)
    show ?thesis
    proof (cases "real i < numPoints this")
      case True
      then have "iterateLoop rs (i + 1) (this1, k1) = Inl err"
        using 1(2) Inr sk by (subst (asm) iterateLoop.simps) simp
      from 1(1) [OF True Inr sk [symmetric] this] show ?thesis .
    next
      case False
      then show ?thesis
        using 1(2) by (subst (asm) iterateLoop.simps) simp
    qed
  qed
qed

lemma findFixedPointStochastic_error:
  "findFixedPointStochastic rounds this rs k = Some (Inl err) \<Longrightarrow> err = TypeError"
  by (induction rounds arbitrary: k) (auto split: prod.splits option.splits)

lemma RandomIFS_new_fields:
  assumes "RandomIFS_new rounds rs k cv table numPts window startingPoint = Some (Inr (this, k'))"
  shows "ctx this = getContext cv" and "pointsDrawn this = 0" and "numIters this = 0"
    and "matrices this = gatherMatrices (calibrateAffineTransforms cv (collectTransforms table))"
  using assms
  by (auto simp: RandomIFS_new_def Let_def RandomIFS_fields.extend_def RandomIFS.fields_def
      split: option.splits sum.splits prod.splits)

lemma RandomIFS_new_error:
  "RandomIFS_new rounds rs k cv table numPts window startingPoint = Some (Inl err)
     \<Longrightarrow> err = TypeError"
  by (auto simp: RandomIFS_new_def Let_def dest: findFixedPointStochastic_error
      split: option.splits sum.splits prod.splits)

lemma lifetime_emissions:
  "lifetime cv this \<Longrightarrow>
     \<exists>pts. filled (ctx this) = filled (getContext cv) @ pts \<and> length pts = pointsDrawn this
       \<and> (\<forall>j<length pts. emissionKindOk j (pts ! j))"
proof (induction rule: lifetime.induct)
  case (constructed rounds rs k table numPts window startingPoint this k')
  then show ?case
    using RandomIFS_new_fields(1,2) [OF constructed] by simp
next
  case (iterated this rs n k this' k')
  then obtain pts where p: "filled (ctx this) = filled (getContext cv) @ pts"
    "length pts = pointsDrawn this" "\<forall>j<length pts. emissionKindOk j (pts ! j)"
    by blast
  show ?case
  proof (rule iterate_emissions [OF iterated(2)])
    show "filled (ctx (this\<lparr>numPoints := n\<rparr>)) = filled (getContext cv) @ pts"
      using p(1) by simp
    show "length pts = pointsDrawn (this\<lparr>numPoints := n\<rparr>)"
      using p(2) by simp
    show "\<forall>j<length pts. emissionKindOk j (pts ! j)"
      by (rule p(3))
  qed
qed

section \<open>The affine map of \<^verbatim>\<open>applyMatrix\<close>\<close>

text \<open>
  C2, as stated: applying the matrix \<open>(a,b,c,d,e,f)\<close> to \<open>(x,y)\<close> returns exactly the pair
  \<open>(a x + b y + e, c x + d y + f)\<close>, with no flooring. \<^verbatim>\<open>applyMatrix\<close> floors: the
  halving map sends \<open>(1,1)\<close> to \<open>(0,0)\<close>, not to \<open>(1/2,1/2)\<close>.
\<close>

theorem applyMatrix_unfloored_counterexample:
  "applyMatrix [1/2, 0, 0, 1/2, 0, 0] \<lparr>x = 1, y = 1\<rparr>
     \<noteq> \<lparr>x = 1/2 * 1 + 0 * 1 + 0, y = 0 * 1 + 1/2 * 1 + 0\<rparr>"
  by (simp add: applyMatrix_def)

text \<open>
  C2, amended: \<^verbatim>\<open>applyMatrix\<close> returns the affine formula floored in each coordinate,
  \<open>(\<lfloor>a x + b y + e\<rfloor>, \<lfloor>c x + d y + f\<rfloor>)\<close>: the real-valued pair rounded down, less than 1
  below it in each coordinate.
\<close>

theorem applyMatrix_floor:
  "applyMatrix [m0, m1, m2, m3, m4, m5] p =
     \<lparr>x = of_int \<lfloor>m0 * x p + m1 * y p + m4\<rfloor>, y = of_int \<lfloor>m2 * x p + m3 * y p + m5\<rfloor>\<rparr>
   \<and> x (applyMatrix [m0, m1, m2, m3, m4, m5] p) \<le> m0 * x p + m1 * y p + m4
   \<and> m0 * x p + m1 * y p + m4 < x (applyMatrix [m0, m1, m2, m3, m4, m5] p) + 1
   \<and> y (applyMatrix [m0, m1, m2, m3, m4, m5] p) \<le> m2 * x p + m3 * y p + m5
   \<and> m2 * x p + m3 * y p + m5 < y (applyMatrix [m0, m1, m2, m3, m4, m5] p) + 1"
  by (simp add: applyMatrix_def)

section \<open>Weighted sampling\<close>

text \<open>
  C5, as stated: for a valid cumulative array and a draw \<open>u\<close> in \<open>[0,1)\<close>, the sample is the
  transform at the smallest index \<open>i\<close> with \<open>cum[i] \<le> u < cum[i+1]\<close>. The test of
  \<^verbatim>\<open>randomMatrix\<close> is \<^verbatim>\<open>rand >= thisProb && rand <= nextProb\<close>, closed on both sides:
  on the table of the scenario the draw \<open>1/2\<close> gives the first transform, where the
  half-open rule gives the second.
\<close>

theorem randomMatrix_half_open_counterexample:
  "validCumulative [0, 1/2, 1] (length [[1/2, 0, 0, 1/2, 0, 0], [1/2, 0, 0, 1/2, 50, 50::real]])
   \<and> randomMatrixLoop [[1/2, 0, 0, 1/2, 0, 0], [1/2, 0, 0, 1/2, 50, 50]] [0, 1/2, 1] (1/2) 0
       = Some [1/2, 0, 0, 1/2, 0, 0]
   \<and> sampleSpec [[1/2, 0, 0, 1/2, 0, 0], [1/2, 0, 0, 1/2, 50, 50]] [0, 1/2, 1] (1/2)
       = Some [1/2, 0, 0, 1/2, 50, 50]"
  by (simp add: validCumulative_def randomMatrixLoop.simps inInterval_def arrayAt_def
      sampleSpec_def upt_rec)


text \<open>
  C5, amended: for a valid cumulative array of a non-empty table and a draw \<open>u\<close> in
  \<open>[0,1]\<close>, \<^verbatim>\<open>randomMatrix\<close> (its loop from the index 0, on the draw \<open>u\<close>) returns the transform at the smallest index \<open>i\<close> with
  \<open>cum[i] \<le> u \<le> cum[i+1]\<close> (such an index exists, so the scan never falls through and
  never errors); the draw \<open>0\<close> returns the first transform; the draw \<open>1\<close> returns the last
  transform when \<open>cum[n-1] < 1\<close>.
\<close>

theorem randomMatrix_closed_intervals:
  assumes "validCumulative cum (length ms)" and "ms \<noteq> []" and "0 \<le> u" and "u \<le> 1"
  shows "(\<exists>i<length ms. randomMatrixLoop ms cum u 0 = Some (ms ! i)
            \<and> cum ! i \<le> u \<and> u \<le> cum ! (i + 1)
            \<and> (\<forall>j<i. \<not> (cum ! j \<le> u \<and> u \<le> cum ! (j + 1))))
       \<and> randomMatrixLoop ms cum 0 0 = Some (ms ! 0)
       \<and> (cum ! (length ms - 1) < 1 \<longrightarrow> randomMatrixLoop ms cum 1 0 = Some (last ms))"
proof -
  let ?n = "length ms"
  have len: "length cum = ?n + 1" and z: "cum ! 0 = 0" and o: "cum ! ?n = 1"
    and srt: "sorted cum"
    using assms(1) by (simp_all add: validCumulative_def)
  have n: "0 < ?n" using assms(2) by simp
  have inI: "inInterval v (arrayAt cum l) (arrayAt cum (l + 1)) = (cum ! l \<le> v \<and> v \<le> cum ! (l + 1))"
    if "l < ?n" for l v
    using that len by (simp add: inInterval_def arrayAt_def)
  have part1: "\<exists>i<?n. randomMatrixLoop ms cum u 0 = Some (ms ! i)
            \<and> cum ! i \<le> u \<and> u \<le> cum ! (i + 1)
            \<and> (\<forall>j<i. \<not> (cum ! j \<le> u \<and> u \<le> cum ! (j + 1)))"
  proof -
    obtain j where j: "j < ?n" "cum ! j \<le> u" "u \<le> cum ! (j + 1)"
        "\<forall>l<j. \<not> (cum ! l \<le> u \<and> u \<le> cum ! (l + 1))"
      using interval_exists [OF len z o assms(3,4) n] by blast
    have "randomMatrixLoop ms cum u 0 = Some (ms ! j)"
    proof (rule randomMatrixLoop_first)
      show "inInterval u (arrayAt cum j) (arrayAt cum (j + 1))"
        using j inI by simp
      show "\<not> inInterval u (arrayAt cum l) (arrayAt cum (l + 1))" if "l < j" for l
        using that j inI [of l u] by simp
    qed (use j in simp_all)
    then show ?thesis using j by blast
  qed
  have c1: "0 \<le> cum ! 1"
    using sorted_nth_mono [OF srt, of 0 1] len n z by simp
  have part2: "randomMatrixLoop ms cum 0 0 = Some (ms ! 0)"
    by (rule randomMatrixLoop_first) (use n z c1 inI [of 0 0] in simp_all)
  have part3: "randomMatrixLoop ms cum 1 0 = Some (last ms)" if lt: "cum ! (?n - 1) < 1"
  proof -
    have "randomMatrixLoop ms cum 1 0 = Some (ms ! (?n - 1))"
    proof (rule randomMatrixLoop_first)
      show "inInterval 1 (arrayAt cum (?n - 1)) (arrayAt cum (?n - 1 + 1))"
        using inI [of "?n - 1" 1] n o lt by simp
      show "\<not> inInterval 1 (arrayAt cum l) (arrayAt cum (l + 1))" if "l < ?n - 1" for l
      proof -
        have "cum ! (l + 1) \<le> cum ! (?n - 1)"
          using sorted_nth_mono [OF srt, of "l + 1" "?n - 1"] that len by simp
        then show ?thesis using inI [of l 1] that lt by simp
      qed
    qed (use n in simp_all)
    then show ?thesis using assms(2) by (simp add: last_conv_nth)
  qed
  show ?thesis using part1 part2 part3 by blast
qed

theorem randomMatrix_closed_intervals_witness:
  "validCumulative [0, 1/2, 1] (length [[1/2, 0, 0, 1/2, 0, 0], [1/2, 0, 0, 1/2, 50, 50::real]])
   \<and> randomMatrixLoop [[1/2, 0, 0, 1/2, 0, 0], [1/2, 0, 0, 1/2, 50, 50]] [0, 1/2, 1] 0 0
       = Some [1/2, 0, 0, 1/2, 0, 0]
   \<and> randomMatrixLoop [[1/2, 0, 0, 1/2, 0, 0], [1/2, 0, 0, 1/2, 50, 50]] [0, 1/2, 1] 1 0
       = Some [1/2, 0, 0, 1/2, 50, 50]"
proof -
  have v: "validCumulative [0, 1/2, 1] (length [[1/2, 0, 0, 1/2, 0, 0], [1/2, 0, 0, 1/2, 50, 50::real]])"
    by (simp add: validCumulative_def)
  show ?thesis
    using v randomMatrix_closed_intervals [OF v, of 1] by simp
qed

section \<open>The fixed-point search\<close>

text \<open>
  C3, as stated: the transform whose fixed point is sought is chosen uniformly, independent
  of the configured probabilities. The search calls \<^verbatim>\<open>randomMatrix\<close>, the weighted
  choice: on the same table, canvas, window and draws, the cumulative probabilities
  \<open>[0, 1/2, 1]\<close> make the draw \<open>1/4\<close> choose the identity, whose first trial point
  \<open>(50,50)\<close> is returned, and \<open>[0, 1/8, 1]\<close> make it choose the halving map, which
  rejects \<open>(50,50)\<close> and returns the second trial point \<open>(0,0)\<close>.
\<close>

theorem search_choice_depends_on_probabilities_counterexample:
  "findFixedPointStochastic 1 (scenarioOrbit\<lparr>matrices := [[1, 0, 0, 1, 0, 0], [1/2, 0, 0, 1/2, 0, 0]], transformProbs := [0, 1/2, 1]\<rparr>)
       (\<lambda>n. if n = 0 then 1/4 else if n < 3 then 1/2 else 0) 0
     = Some (Inr (\<lparr>x = 50, y = 50\<rparr>, 3))
   \<and> findFixedPointStochastic 1 (scenarioOrbit\<lparr>matrices := [[1, 0, 0, 1, 0, 0], [1/2, 0, 0, 1/2, 0, 0]], transformProbs := [0, 1/8, 1]\<rparr>)
       (\<lambda>n. if n = 0 then 1/4 else if n < 3 then 1/2 else 0) 0
     = Some (Inr (\<lparr>x = 0, y = 0\<rparr>, 5))"
  by (simp add: scenarioOrbit_def scenarioCanvas_def search_eval)

text \<open>
  C3, amended: the transform whose fixed point is sought is chosen by \<^verbatim>\<open>randomMatrix\<close>,
  the weighted choice on the cumulative probabilities that \<^verbatim>\<open>iterate\<close> uses too: a
  returned point \<open>p\<close> is within the tolerance of its image under the transform that
  \<^verbatim>\<open>randomMatrix\<close> gives on one of the draws the search has made.
\<close>

theorem search_samples_weighted:
  "findFixedPointStochastic rounds this rs k = Some (Inr (p, k')) \<Longrightarrow>
     \<exists>j T. k \<le> j \<and> j < k' \<and> randomMatrix this rs j = (Some T, j + 1)
       \<and> \<bar>x p - x (applyMatrix T p)\<bar> \<le> POINT_TOLERANCE
       \<and> \<bar>y p - y (applyMatrix T p)\<bar> \<le> POINT_TOLERANCE"
  by (rule findFixedPointStochastic_result)

theorem search_samples_weighted_witness:
  "findFixedPointStochastic 1 scenarioOrbit (\<lambda>n. if n = 0 then 3/4 else 99/100) 0 = Some (Inr (\<lparr>x = 99, y = 99\<rparr>, 3))
   \<and> (\<exists>j T. 0 \<le> j \<and> j < (3::nat) \<and> randomMatrix scenarioOrbit (\<lambda>n. if n = 0 then 3/4 else 99/100) j = (Some T, j + 1)
         \<and> \<bar>x \<lparr>x = 99, y = 99\<rparr> - x (applyMatrix T \<lparr>x = 99, y = 99\<rparr>)\<bar> \<le> POINT_TOLERANCE
         \<and> \<bar>y \<lparr>x = 99, y = 99\<rparr> - y (applyMatrix T \<lparr>x = 99, y = 99\<rparr>)\<bar> \<le> POINT_TOLERANCE)"
proof -
  have r: "findFixedPointStochastic 1 scenarioOrbit (\<lambda>n. if n = 0 then 3/4 else 99/100) 0
             = Some (Inr (\<lparr>x = 99, y = 99\<rparr>, 3))"
    by (simp add: scenarioOrbit_def scenarioCanvas_def search_eval)
  show ?thesis
    using r search_samples_weighted [OF r] by blast
qed



section \<open>Iteration\<close>

text \<open>
  C6: every call of \<^verbatim>\<open>iterate\<close> increments \<^verbatim>\<open>numIters\<close> by exactly 1, whatever
  \<^verbatim>\<open>numPoints\<close> is, and \<^verbatim>\<open>pointsDrawn\<close> by exactly \<^verbatim>\<open>numPoints\<close>, once per point
  emitted. The loop \<^verbatim>\<open>for (i = 0; i < numPoints; i++)\<close> runs \<open>\<lceil>numPoints\<rceil>\<close> times (none
  for a negative \<^verbatim>\<open>numPoints\<close>), which is \<^verbatim>\<open>numPoints\<close> for every number of points
  \<open>n = 0, 1, 2, \<dots>\<close>; and the call returns whenever the table is not empty.
\<close>

theorem iterate_counters:
  "(iterate rs (this, k) = Inr (this', k') \<longrightarrow>
      numIters this' = numIters this + 1
      \<and> pointsDrawn this' = pointsDrawn this + nat \<lceil>numPoints this\<rceil>
      \<and> (\<forall>n. numPoints this = real n \<longrightarrow> pointsDrawn this' = pointsDrawn this + n))
   \<and> (matrices this \<noteq> [] \<longrightarrow> (\<exists>that j. iterate rs (this, k) = Inr (that, j)))"
  using iterate_fields [of rs this k this' k'] iterate_total [of this rs k] by auto

theorem iterate_counters_witness:
  "iterate (\<lambda>n. 3/4) (scenarioOrbit, 0) = Inr (scenarioOrbit1, 12)
   \<and> matrices scenarioOrbit \<noteq> [] \<and> numPoints scenarioOrbit = real 12
   \<and> numIters scenarioOrbit = 0 \<and> numIters scenarioOrbit1 = 1
   \<and> pointsDrawn scenarioOrbit = 0 \<and> pointsDrawn scenarioOrbit1 = 12"
proof -
  have m: "matrices scenarioOrbit \<noteq> []" and n: "numPoints scenarioOrbit = real 12"
    and z: "numIters scenarioOrbit = 0" "pointsDrawn scenarioOrbit = 0"
    by (simp_all add: scenarioOrbit_def)
  show ?thesis
    using m n z scenarioOrbit_iterated
      iterate_counters [of "\<lambda>n. 3/4" scenarioOrbit 0 scenarioOrbit1 12]
    by simp
qed

text \<open>
  C7: over the lifetime of an orbit, across all calls of \<^verbatim>\<open>iterate\<close>, exactly the first
  10 points emitted are highlight emissions and every later one is a default emission:
  the emission of index \<open>j\<close> is a highlight if and only if \<open>j < 10\<close>, and the number of
  emissions is \<^verbatim>\<open>pointsDrawn\<close>.
\<close>

theorem first_ten_highlighted:
  "lifetime cv this \<Longrightarrow>
     length (emitted cv this) = pointsDrawn this
     \<and> (\<forall>j<length (emitted cv this).
           highlightEmission (emitted cv this ! j) = (j < 10)
           \<and> defaultEmission (emitted cv this ! j) = (10 \<le> j))"
proof -
  assume "lifetime cv this"
  from lifetime_emissions [OF this] obtain pts where
    p: "filled (ctx this) = filled (getContext cv) @ pts" "length pts = pointsDrawn this"
      "\<forall>j<length pts. emissionKindOk j (pts ! j)"
    by blast
  have e: "emitted cv this = pts"
    using p(1) by (simp add: emitted_def)
  have "highlightEmission (pts ! j) = (j < 10) \<and> defaultEmission (pts ! j) = (10 \<le> j)"
    if "j < length pts" for j
    using p(3) that
    by (auto simp: emissionKindOk_def highlightEmission_def defaultEmission_def
        split: if_splits)
  then show ?thesis
    using e p(2) by simp
qed

theorem first_ten_highlighted_witness:
  "lifetime scenarioCanvas scenarioOrbit1
   \<and> length (emitted scenarioCanvas scenarioOrbit1) = 12
   \<and> highlightEmission (emitted scenarioCanvas scenarioOrbit1 ! 9)
   \<and> \<not> defaultEmission (emitted scenarioCanvas scenarioOrbit1 ! 9)
   \<and> defaultEmission (emitted scenarioCanvas scenarioOrbit1 ! 10)
   \<and> \<not> highlightEmission (emitted scenarioCanvas scenarioOrbit1 ! 10)"
proof -
  have "lifetime scenarioCanvas scenarioOrbit"
    by (rule lifetime.constructed) (rule scenarioOrbit_constructed [of 0 "\<lambda>n. 0" 0])
  moreover have "iterate (\<lambda>n. 3/4) (scenarioOrbit\<lparr>numPoints := 12\<rparr>, 0) = Inr (scenarioOrbit1, 12)"
    using scenarioOrbit_iterated by (simp add: scenarioOrbit_def)
  ultimately have l: "lifetime scenarioCanvas scenarioOrbit1"
    by (rule lifetime.iterated)
  have c: "pointsDrawn scenarioOrbit1 = 12"
    by (simp add: scenarioOrbit1_def)
  show ?thesis
    using l c first_ten_highlighted [OF l] by auto
qed



section \<open>Construction\<close>

text \<open>
  C8, as stated: construction with a degenerate window fails with a ConfigurationError.
  The constructor checks nothing: on the window with \<open>a1 = b1 = 0\<close> and a starting point it
  returns an orbit, which holds that window.
\<close>

theorem degenerate_window_accepted_counterexample:
  "(case RandomIFS_new 0 (\<lambda>n. 0) 0 scenarioCanvas scenarioTable 12
           \<lparr>WindowCoordinates.a1 = 0, b1 = 0, a2 = 0, b2 = 1\<rparr> (Some \<lparr>x = 0, y = 0\<rparr>) of
      Some (Inr (this, k)) \<Rightarrow> b1 this = a1 this
    | _ \<Rightarrow> False)"
  by (simp add: RandomIFS_new_def Let_def RandomIFS_fields.extend_def RandomIFS.fields_def)

text \<open>
  C8, amended: the constructor validates nothing and never raises a ConfigurationError:
  given a starting point it returns an orbit for every window, degenerate ones included,
  with the bounds stored as given. \<^verbatim>\<open>iterate\<close> never raises a ConfigurationError
  either, and raises nothing when the table of transforms is not empty.
\<close>

theorem construction_validates_nothing:
  "RandomIFS_new rounds rs k cv table numPts window startingPoint \<noteq> Some (Inl ConfigurationError)
   \<and> (\<exists>this. RandomIFS_new rounds rs k cv table numPts window (Some p) = Some (Inr (this, k))
         \<and> a1 this = WindowCoordinates.a1 window \<and> b1 this = WindowCoordinates.b1 window
         \<and> a2 this = WindowCoordinates.a2 window \<and> b2 this = WindowCoordinates.b2 window)
   \<and> iterate rs (that, k) \<noteq> Inl ConfigurationError
   \<and> (matrices that \<noteq> [] \<longrightarrow> (\<exists>that' k'. iterate rs (that, k) = Inr (that', k')))"
proof -
  have 1: "RandomIFS_new rounds rs k cv table numPts window startingPoint
             \<noteq> Some (Inl ConfigurationError)"
    using RandomIFS_new_error [of rounds rs k cv table numPts window startingPoint ConfigurationError]
    by auto
  have 2: "\<exists>this. RandomIFS_new rounds rs k cv table numPts window (Some p) = Some (Inr (this, k))
         \<and> a1 this = WindowCoordinates.a1 window \<and> b1 this = WindowCoordinates.b1 window
         \<and> a2 this = WindowCoordinates.a2 window \<and> b2 this = WindowCoordinates.b2 window"
    by (simp add: RandomIFS_new_def Let_def RandomIFS_fields.extend_def RandomIFS.fields_def)
  have 3: "iterate rs (that, k) \<noteq> Inl ConfigurationError"
    using iterateLoop_error [of rs 0 "that\<lparr>numIters := numIters that + 1\<rparr>" k ConfigurationError]
    by (auto simp: iterate_def)
  show ?thesis
    using 1 2 3 iterate_total [of that rs k] by blast
qed

theorem construction_validates_nothing_witness:
  "matrices scenarioOrbit \<noteq> []
   \<and> (\<exists>that' k'. iterate (\<lambda>n. 3/4) (scenarioOrbit, 0) = Inr (that', k'))
   \<and> iterate (\<lambda>n. 3/4) (scenarioOrbit, 0) = Inr (scenarioOrbit1, 12)"
proof -
  have m: "matrices scenarioOrbit \<noteq> []"
    by (simp add: scenarioOrbit_def)
  show ?thesis
    using m scenarioOrbit_iterated
      construction_validates_nothing [of 0 "\<lambda>n. 3/4" 0 scenarioCanvas scenarioTable 12
        scenarioWindow None "\<lparr>x = 0, y = 0\<rparr>" scenarioOrbit]
    by blast
qed

text \<open>
  C9, as stated: calibrating the same transforms a second time is prevented or is a no-op.
  \<^verbatim>\<open>calibrateAffineTransforms\<close> has no guard and rescales the transforms it is given, in
  place, each time it runs: applied again to its own result on the scenario's table, it
  changes it.
\<close>

theorem calibration_twice_counterexample:
  "calibrateAffineTransforms scenarioCanvas
     (calibrateAffineTransforms scenarioCanvas (collectTransforms scenarioTable))
   \<noteq> calibrateAffineTransforms scenarioCanvas (collectTransforms scenarioTable)"
  by (simp add: calibrateAffineTransforms_def scenarioCanvas_def scenarioTable_def)

text \<open>
  C9, amended: the constructor calibrates the transforms it collects exactly once (the
  matrices of the orbit carry \<open>e\<close> times the canvas width and \<open>f\<close> times the canvas height)
  and \<^verbatim>\<open>iterate\<close> never changes the matrices; the calibration itself is not idempotent:
  a second application to the same transforms multiplies \<open>e\<close> by the width and \<open>f\<close> by the
  height again.
\<close>

theorem calibration_once_per_orbit:
  "(RandomIFS_new rounds rs k cv table numPts window startingPoint = Some (Inr (this, k'))
      \<longrightarrow> matrices this =
            map (\<lambda>t. [a t, b t, c t, d t, e t * real (width cv), f t * real (height cv)])
              (collectTransforms table))
   \<and> (iterate rs (that, j) = Inr (that', j') \<longrightarrow> matrices that' = matrices that)
   \<and> calibrateAffineTransforms cv (calibrateAffineTransforms cv ts) =
       map (\<lambda>t. t\<lparr>e := e t * real (width cv) * real (width cv),
                    f := f t * real (height cv) * real (height cv)\<rparr>) ts"
proof -
  have "matrices this =
            map (\<lambda>t. [a t, b t, c t, d t, e t * real (width cv), f t * real (height cv)])
              (collectTransforms table)"
    if "RandomIFS_new rounds rs k cv table numPts window startingPoint = Some (Inr (this, k'))"
    using RandomIFS_new_fields(4) [OF that]
    by (simp add: gatherMatrices_def calibrateAffineTransforms_def createMatrix_def)
  moreover have "matrices that' = matrices that" if "iterate rs (that, j) = Inr (that', j')"
    using iterate_fields(2) [OF that] .
  moreover have "calibrateAffineTransforms cv (calibrateAffineTransforms cv ts) =
       map (\<lambda>t. t\<lparr>e := e t * real (width cv) * real (width cv),
                    f := f t * real (height cv) * real (height cv)\<rparr>) ts"
    by (simp add: calibrateAffineTransforms_def)
  ultimately show ?thesis by blast
qed

theorem calibration_once_per_orbit_witness:
  "RandomIFS_new 0 (\<lambda>n. 3/4) 0 scenarioCanvas scenarioTable 12 scenarioWindow (Some \<lparr>x = 0, y = 0\<rparr>)
     = Some (Inr (scenarioOrbit, 0))
   \<and> matrices scenarioOrbit = [[1/2, 0, 0, 1/2, 0, 0], [1/2, 0, 0, 1/2, 50, 50]]
   \<and> iterate (\<lambda>n. 3/4) (scenarioOrbit, 0) = Inr (scenarioOrbit1, 12)
   \<and> matrices scenarioOrbit1 = [[1/2, 0, 0, 1/2, 0, 0], [1/2, 0, 0, 1/2, 50, 50]]"
proof -
  have c: "RandomIFS_new 0 (\<lambda>n. 3/4) 0 scenarioCanvas scenarioTable 12 scenarioWindow
             (Some \<lparr>x = 0, y = 0\<rparr>) = Some (Inr (scenarioOrbit, 0))"
    by (rule scenarioOrbit_constructed)
  have "matrices scenarioOrbit = [[1/2, 0, 0, 1/2, 0, 0], [1/2, 0, 0, 1/2, 50, 50]]
        \<and> matrices scenarioOrbit1 = matrices scenarioOrbit"
    using c scenarioOrbit_iterated
      calibration_once_per_orbit [of 0 "\<lambda>n. 3/4" 0 scenarioCanvas scenarioTable 12 scenarioWindow
        "Some \<lparr>x = 0, y = 0\<rparr>" scenarioOrbit 0 scenarioOrbit 0 scenarioOrbit1 12]
    by (simp add: scenarioTable_def scenarioCanvas_def)
  then show ?thesis
    using c scenarioOrbit_iterated by simp
qed

section \<open>The window maps in exact arithmetic\<close>

text \<open>
  Over the reals, and for a non-degenerate window, \<^verbatim>\<open>invWindowTransform\<close> after
  \<^verbatim>\<open>windowTransform\<close> floors each coordinate. The proof cancels
  \<open>(v - x0) * (b1 - a1) / (b1 - a1) + x0 = v\<close>, which is exact for reals and not for the
  doubles the code computes with, so it says nothing of the code's results.
\<close>

lemma window_round_trip_exact:
  "b1 this \<noteq> a1 this \<Longrightarrow> b2 this \<noteq> a2 this \<Longrightarrow>
     invWindowTransform this (windowTransform this p)
       = \<lparr>x = of_int \<lfloor>x p\<rfloor>, y = of_int \<lfloor>y p\<rfloor>\<rparr>"
  by (simp add: invWindowTransform_def windowTransform_def)

end
